theory Spec2Isabelle
  imports Main
begin

section \<open>The \<open>number\<close> type of the counter\<close>

text \<open>
  \<open>StateType.count\<close> is declared \<open>number\<close>: an IEEE-754 binary64 value, not an
  unbounded integer. The model holds the integer-valued finite numbers as \<open>int\<close>
  (fractions, infinities and NaN are outside it) and writes the arithmetic of the source
  out: \<open>x + y\<close> and \<open>x - y\<close> are the exact result rounded to the nearest number with
  a 53-bit significand, a tie going to the even significand.

  \<open>ulp a\<close> is the distance between neighbouring binary64 numbers at magnitude \<open>a\<close>:
  1 below \<open>2 ^ 53\<close>, doubling at every power of two from there. Adding or subtracting
  1 never reaches the exponent limit (from \<open>2 ^ 54\<close> on the result rounds back to the
  operand), so overflow to infinity is not part of the model.
\<close>

function ulp :: "int \<Rightarrow> int" where
  "ulp a = (if a < 2 ^ 53 then 1 else 2 * ulp (a div 2))"
  by pat_completeness auto
termination
proof (relation "measure nat")
  show "wf (measure nat)" by simp
next
  fix a :: int
  assume "\<not> a < 2 ^ 53"
  then have pos: "0 < a" by (simp add: not_less order.strict_trans2 [of 0 "2 ^ 53"])
  then have "a div 2 < a" by simp
  with pos show "(a div 2, a) \<in> measure nat" by simp
qed

declare ulp.simps [simp del]

definition round_binary64 :: "int \<Rightarrow> int" where
  "round_binary64 z =
     (let a = \<bar>z\<bar>;
          u = ulp a;
          q = a div u;
          r = a mod u;
          q' = (if u < 2 * r \<or> (2 * r = u \<and> odd q) then q + 1 else q)
      in sgn z * (q' * u))"

definition js_add :: "int \<Rightarrow> int \<Rightarrow> int" where
  "js_add x y = round_binary64 (x + y)"

definition js_sub :: "int \<Rightarrow> int \<Rightarrow> int" where
  "js_sub x y = round_binary64 (x - y)"

section \<open>State, actions and the reducer\<close>

text \<open>
  \<open>throw new Error()\<close> is the value \<open>Inl Error\<close>. \<open>TypeError\<close> is what the
  runtime raises when a property is read from \<open>undefined\<close>.
\<close>

datatype error = Error | TypeError

record StateType =
  count :: int
  "text" :: string

definition initState :: StateType where
  "initState = \<lparr>count = 0, text = ''''\<rparr>"

text \<open>
  \<open>const enum REDUCER_ACTION_TYPE\<close> is a numeric enum: its members are the numbers
  0, 1 and 2, and a value of the type is a number at run time, which is why the
  \<open>switch\<close> has a \<open>default\<close> branch. \<open>payload?: string\<close> may be missing.
\<close>

type_synonym REDUCER_ACTION_TYPE = int

definition INCREMENT :: REDUCER_ACTION_TYPE where
  "INCREMENT = 0"

definition DECREMENT :: REDUCER_ACTION_TYPE where
  "DECREMENT = 1"

definition NEW_INPUT :: REDUCER_ACTION_TYPE where
  "NEW_INPUT = 2"

record ReducerAction =
  type :: REDUCER_ACTION_TYPE
  payload :: "string option"

text \<open>
  The spread \<open>{ ...state, count: e }\<close> is the record update \<open>state\<lparr>count := e\<rparr>\<close>;
  \<open>action.payload ?? ""\<close> is the case distinction on the optional payload.
\<close>

definition reducer :: "StateType \<Rightarrow> ReducerAction \<Rightarrow> error + StateType" where
  "reducer state action =
     (if type action = INCREMENT then Inr (state\<lparr>count := js_add (count state) 1\<rparr>)
      else if type action = DECREMENT then Inr (state\<lparr>count := js_sub (count state) 1\<rparr>)
      else if type action = NEW_INPUT then
        Inr (state\<lparr>text := (case payload action of None \<Rightarrow> '''' | Some p \<Rightarrow> p)\<rparr>)
      else Inl Error)"

section \<open>The hook \<open>useCounterContext\<close>\<close>

text \<open>
  \<open>useReducer(reducer, initialArg)\<close> holds \<open>initialArg\<close> as the first state, and each
  \<open>dispatch(action)\<close> replaces the state by \<open>reducer(state, action)\<close>. The state
  after a sequence of dispatched actions is the fold below; an exception of the reducer
  ends it.
\<close>

primrec useReducer :: "('s \<Rightarrow> 'a \<Rightarrow> error + 's) \<Rightarrow> 's \<Rightarrow> 'a list \<Rightarrow> error + 's" where
  "useReducer r s [] = Inr s"
| "useReducer r s (a # dispatched) =
     (case r s a of Inl e \<Rightarrow> Inl e | Inr s' \<Rightarrow> useReducer r s' dispatched)"

text \<open>
  \<open>handleTextInput\<close> is declared on \<open>ChangeEvent<HTMLInputElement>\<close> and reads
  \<open>e.target.value\<close>. The type is erased at run time: a caller that passes the text
  itself passes a string, whose \<open>target\<close> is \<open>undefined\<close>, and reading \<open>value\<close> from
  it raises.
\<close>

record ChangeEvent =
  target_value :: string

datatype js_value = JSChangeEvent ChangeEvent | JSString string

text \<open>
  A callback is modelled by what a call of it does: the actions it dispatches (none for
  an empty body), or the exception it raises.
\<close>

record UseCounterContextType =
  state :: StateType
  increment :: "ReducerAction list"
  decrement :: "ReducerAction list"
  handleTextInput :: "js_value \<Rightarrow> error + ReducerAction list"

text \<open>
  \<open>useCounterContext init dispatched\<close> is what the hook returns at the render that
  follows the actions \<open>dispatched\<close> since the mount.
\<close>

definition useCounterContext ::
    "StateType \<Rightarrow> ReducerAction list \<Rightarrow> error + UseCounterContextType" where
  "useCounterContext init dispatched =
     (case useReducer reducer init dispatched of
        Inl e \<Rightarrow> Inl e
      | Inr st \<Rightarrow>
          Inr \<lparr>state = st,
               increment = [\<lparr>type = INCREMENT, payload = None\<rparr>],
               decrement = [\<lparr>type = DECREMENT, payload = None\<rparr>],
               handleTextInput =
                 (\<lambda>e. case e of
                    JSChangeEvent ev \<Rightarrow>
                      Inr [\<lparr>type = NEW_INPUT, payload = Some (target_value ev)\<rparr>]
                  | JSString _ \<Rightarrow> Inl TypeError)\<rparr>)"

section \<open>The context, its provider and the accessor hooks\<close>

definition initContextState :: UseCounterContextType where
  "initContextState =
     \<lparr>state = initState,
      increment = [],
      decrement = [],
      handleTextInput = (\<lambda>e. Inr [])\<rparr>"

text \<open>
  \<open>createContext(d)\<close> makes a context whose default value is \<open>d\<close>;
  \<open>useContext\<close> returns the value of the nearest provider above the caller, and the
  default when there is none.
\<close>

definition CounterContext :: UseCounterContextType where
  "CounterContext = initContextState"

definition useContext :: "'v \<Rightarrow> 'v option \<Rightarrow> 'v" where
  "useContext default_value provider =
     (case provider of None \<Rightarrow> default_value | Some v \<Rightarrow> v)"

text \<open>
  The props of \<open>CounterProvider\<close> are \<open>ChildrenType & StateType\<close>: \<open>children\<close> is
  optional, \<open>count\<close> and \<open>text\<close> are declared required. At run time a prop the caller
  left out is missing from the props object. \<open>{ children, ...initState }\<close> collects
  every prop but \<open>children\<close> into \<open>initState\<close>, which goes to \<open>useCounterContext\<close>
  as it is; \<open>children\<close> is not state and is left out of the model.
\<close>

record CounterProviderProps =
  count_prop :: "int option"
  text_prop :: "string option"

record RestProps =
  rest_count :: "int option"
  rest_text :: "string option"

definition CounterProvider_initState :: "CounterProviderProps \<Rightarrow> RestProps" where
  "CounterProvider_initState props =
     \<lparr>rest_count = count_prop props, rest_text = text_prop props\<rparr>"

text \<open>
  The fields of the two accessor results carry the hook's name, since the field names
  \<open>count\<close>, \<open>text\<close>, \<open>increment\<close>, \<open>decrement\<close> and \<open>handleTextInput\<close> are taken.
\<close>

record UseCounterHookType =
  useCounter_count :: int
  useCounter_increment :: "ReducerAction list"
  useCounter_decrement :: "ReducerAction list"

definition useCounter :: "UseCounterContextType option \<Rightarrow> UseCounterHookType" where
  "useCounter provider =
     (let ctx = useContext CounterContext provider
      in \<lparr>useCounter_count = count (state ctx),
          useCounter_increment = increment ctx,
          useCounter_decrement = decrement ctx\<rparr>)"

record UseCounterTextHookType =
  useCounterText_text :: string
  useCounterText_handleTextInput :: "js_value \<Rightarrow> error + ReducerAction list"

definition useCounterText :: "UseCounterContextType option \<Rightarrow> UseCounterTextHookType" where
  "useCounterText provider =
     (let ctx = useContext CounterContext provider
      in \<lparr>useCounterText_text = text (state ctx),
          useCounterText_handleTextInput = handleTextInput ctx\<rparr>)"

section \<open>Rounding is exact up to \<open>2 ^ 53\<close>\<close>

lemma ulp_below: "a < 2 ^ 53 \<Longrightarrow> ulp a = 1"
  by (simp add: ulp.simps)

lemma ulp_first_binade: "2 ^ 53 \<le> a \<Longrightarrow> a < 2 ^ 54 \<Longrightarrow> ulp a = 2"
  by (simp add: ulp.simps [of a] ulp_below)

lemma ulp_second_binade: "2 ^ 54 \<le> a \<Longrightarrow> a < 2 ^ 55 \<Longrightarrow> ulp a = 4"
  by (simp add: ulp.simps [of a] ulp_first_binade)

lemma round_binary64_exact:
  assumes "\<bar>z\<bar> \<le> 2 ^ 53"
  shows "round_binary64 z = z"
proof (cases "\<bar>z\<bar> < 2 ^ 53")
  case True
  then have "ulp \<bar>z\<bar> = 1" by (rule ulp_below)
  then show ?thesis by (simp add: round_binary64_def Let_def mult_sgn_abs)
next
  case False
  with assms have top: "\<bar>z\<bar> = 2 ^ 53" by simp
  then have "ulp \<bar>z\<bar> = 2" by (simp add: ulp_first_binade)
  with top have "round_binary64 z = sgn z * \<bar>z\<bar>"
    by (simp add: round_binary64_def Let_def)
  then show ?thesis by (simp add: mult_sgn_abs)
qed

lemma js_add_one_exact:
  "- (2 ^ 53) \<le> c \<Longrightarrow> c < 2 ^ 53 \<Longrightarrow> js_add c 1 = c + 1"
  unfolding js_add_def by (rule round_binary64_exact) simp

lemma js_sub_one_exact:
  "- (2 ^ 53) < c \<Longrightarrow> c \<le> 2 ^ 53 \<Longrightarrow> js_sub c 1 = c - 1"
  unfolding js_sub_def by (rule round_binary64_exact) simp

section \<open>What \<open>round_binary64\<close> computes\<close>

text \<open>
  The result is a multiple of the spacing at the argument and lies within half a spacing
  of it; an argument that is such a multiple already is returned as it is.
\<close>

lemma round_binary64_on_grid: "ulp \<bar>z\<bar> dvd round_binary64 z"
  by (simp add: round_binary64_def Let_def)

lemma ulp_positive: "0 < ulp a"
proof (induction a rule: ulp.induct)
  case (1 a)
  then show ?case by (cases "a < 2 ^ 53") (simp_all add: ulp.simps [of a])
qed

lemma round_binary64_nearest: "2 * \<bar>round_binary64 z - z\<bar> \<le> ulp \<bar>z\<bar>"
proof -
  define a where "a = \<bar>z\<bar>"
  define u where "u = ulp a"
  define q where "q = a div u"
  define r where "r = a mod u"
  have u: "0 < u" by (simp add: u_def ulp_positive)
  have a: "a = q * u + r" by (simp add: q_def r_def)
  have r: "0 \<le> r" "r < u" using u by (simp_all add: r_def)
  have z: "z = sgn z * a" by (simp add: a_def mult_sgn_abs)
  have rounded: "round_binary64 z
      = sgn z * ((if u < 2 * r \<or> (2 * r = u \<and> odd q) then q + 1 else q) * u)"
    by (simp add: round_binary64_def Let_def a_def u_def q_def r_def)
  show ?thesis
  proof (cases "u < 2 * r \<or> (2 * r = u \<and> odd q)")
    case True
    then have "round_binary64 z = sgn z * ((q + 1) * u)"
      by (simp only: rounded if_True)
    then have "round_binary64 z - z = sgn z * (u - r)"
      using z a by (simp add: algebra_simps)
    then have "\<bar>round_binary64 z - z\<bar> \<le> u - r"
      using r by (simp add: abs_mult abs_sgn_eq)
    moreover from True have "u \<le> 2 * r" by auto
    ultimately have "2 * \<bar>round_binary64 z - z\<bar> \<le> u" by arith
    then show ?thesis by (simp add: u_def a_def)
  next
    case False
    then have "round_binary64 z = sgn z * (q * u)"
      by (simp only: rounded if_False)
    then have "round_binary64 z - z = sgn z * (- r)"
      using z a by (simp add: algebra_simps)
    then have "\<bar>round_binary64 z - z\<bar> \<le> r"
      using r by (simp add: abs_mult abs_sgn_eq)
    moreover from False have "2 * r \<le> u" by auto
    ultimately have "2 * \<bar>round_binary64 z - z\<bar> \<le> u" by arith
    then show ?thesis by (simp add: u_def a_def)
  qed
qed

lemma round_binary64_representable:
  assumes "\<bar>z\<bar> mod ulp \<bar>z\<bar> = 0"
  shows "round_binary64 z = z"
proof -
  have pos: "0 < ulp \<bar>z\<bar>" by (rule ulp_positive)
  from assms div_mult_mod_eq [of "\<bar>z\<bar>" "ulp \<bar>z\<bar>"]
  have "\<bar>z\<bar> div ulp \<bar>z\<bar> * ulp \<bar>z\<bar> = \<bar>z\<bar>"
    by simp
  with assms pos show ?thesis
    by (simp add: round_binary64_def Let_def mult_sgn_abs)
qed

section \<open>The reducer, one action at a time\<close>

lemmas action_kinds = INCREMENT_def DECREMENT_def NEW_INPUT_def

lemma reducer_INCREMENT:
  "reducer s \<lparr>type = INCREMENT, payload = p\<rparr> = Inr (s\<lparr>count := js_add (count s) 1\<rparr>)"
  by (simp add: reducer_def)

lemma reducer_DECREMENT:
  "reducer s \<lparr>type = DECREMENT, payload = p\<rparr> = Inr (s\<lparr>count := js_sub (count s) 1\<rparr>)"
  by (simp add: reducer_def action_kinds)

lemma reducer_NEW_INPUT:
  "reducer s \<lparr>type = NEW_INPUT, payload = p\<rparr>
     = Inr (s\<lparr>text := (case p of None \<Rightarrow> '''' | Some v \<Rightarrow> v)\<rparr>)"
  by (simp add: reducer_def action_kinds)

lemma useReducer_append:
  "useReducer r s (xs @ ys) =
     (case useReducer r s xs of Inl e \<Rightarrow> Inl e | Inr s' \<Rightarrow> useReducer r s' ys)"
  by (induction xs arbitrary: s) (auto split: sum.splits)

lemma increments_exact:
  "- (2 ^ 53) \<le> count s \<Longrightarrow> count s + int n \<le> 2 ^ 53 \<Longrightarrow>
     useReducer reducer s (replicate n \<lparr>type = INCREMENT, payload = None\<rparr>)
       = Inr (s\<lparr>count := count s + int n\<rparr>)"
proof (induction n arbitrary: s)
  case 0
  show ?case by simp
next
  case (Suc n)
  let ?s1 = "s\<lparr>count := count s + 1\<rparr>"
  from Suc.prems have step: "js_add (count s) 1 = count s + 1"
    by (intro js_add_one_exact) simp_all
  from Suc.prems have "- (2 ^ 53) \<le> count ?s1" and "count ?s1 + int n \<le> 2 ^ 53"
    by simp_all
  then have "useReducer reducer ?s1 (replicate n \<lparr>type = INCREMENT, payload = None\<rparr>)
               = Inr (?s1\<lparr>count := count ?s1 + int n\<rparr>)"
    by (rule Suc.IH)
  then have ih: "useReducer reducer ?s1 (replicate n \<lparr>type = INCREMENT, payload = None\<rparr>)
                   = Inr (s\<lparr>count := count s + int (Suc n)\<rparr>)"
    by (simp add: algebra_simps)
  show ?case
    by (simp add: reducer_INCREMENT step ih)
qed

lemma decrements_exact:
  "count s \<le> 2 ^ 53 \<Longrightarrow> - (2 ^ 53) \<le> count s - int n \<Longrightarrow>
     useReducer reducer s (replicate n \<lparr>type = DECREMENT, payload = None\<rparr>)
       = Inr (s\<lparr>count := count s - int n\<rparr>)"
proof (induction n arbitrary: s)
  case 0
  show ?case by simp
next
  case (Suc n)
  let ?s1 = "s\<lparr>count := count s - 1\<rparr>"
  from Suc.prems have step: "js_sub (count s) 1 = count s - 1"
    by (intro js_sub_one_exact) simp_all
  from Suc.prems have "count ?s1 \<le> 2 ^ 53" and "- (2 ^ 53) \<le> count ?s1 - int n"
    by simp_all
  then have "useReducer reducer ?s1 (replicate n \<lparr>type = DECREMENT, payload = None\<rparr>)
               = Inr (?s1\<lparr>count := count ?s1 - int n\<rparr>)"
    by (rule Suc.IH)
  then have ih: "useReducer reducer ?s1 (replicate n \<lparr>type = DECREMENT, payload = None\<rparr>)
                   = Inr (s\<lparr>count := count s - int (Suc n)\<rparr>)"
    by (simp add: algebra_simps)
  show ?case
    by (simp add: reducer_DECREMENT step ih)
qed

section \<open>The claims\<close>

text \<open>
  Claim C1, as the code has it. For every state the reducer returns, on an Increment
  action, the state with \<open>count\<close> replaced by the binary64 sum \<open>count + 1\<close> and
  \<open>text\<close> as it was; on a Decrement action, the same with the binary64 difference
  \<open>count - 1\<close>; on a SetText action with payload \<open>v\<close>, the state with \<open>text = v\<close>
  and \<open>count\<close> as it was. Both fields are present in every result. The binary64 sum is
  the integer \<open>count + 1\<close> when \<open>-2^53 \<le> count < 2^53\<close>, and the difference is
  \<open>count - 1\<close> when \<open>-2^53 < count \<le> 2^53\<close>.
\<close>

theorem reducer_transitions:
  "reducer s \<lparr>type = INCREMENT, payload = p\<rparr>
     = Inr \<lparr>count = js_add (count s) 1, text = text s\<rparr> \<and>
   reducer s \<lparr>type = DECREMENT, payload = p\<rparr>
     = Inr \<lparr>count = js_sub (count s) 1, text = text s\<rparr> \<and>
   reducer s \<lparr>type = NEW_INPUT, payload = Some v\<rparr>
     = Inr \<lparr>count = count s, text = v\<rparr> \<and>
   (- (2 ^ 53) \<le> count s \<and> count s < 2 ^ 53 \<longrightarrow> js_add (count s) 1 = count s + 1) \<and>
   (- (2 ^ 53) < count s \<and> count s \<le> 2 ^ 53 \<longrightarrow> js_sub (count s) 1 = count s - 1)"
proof (intro conjI impI)
  show "reducer s \<lparr>type = INCREMENT, payload = p\<rparr>
          = Inr \<lparr>count = js_add (count s) 1, text = text s\<rparr>"
    by (simp add: reducer_INCREMENT)
  show "reducer s \<lparr>type = DECREMENT, payload = p\<rparr>
          = Inr \<lparr>count = js_sub (count s) 1, text = text s\<rparr>"
    by (simp add: reducer_DECREMENT)
  show "reducer s \<lparr>type = NEW_INPUT, payload = Some v\<rparr> = Inr \<lparr>count = count s, text = v\<rparr>"
    by (simp add: reducer_NEW_INPUT)
next
  assume "- (2 ^ 53) \<le> count s \<and> count s < 2 ^ 53"
  then show "js_add (count s) 1 = count s + 1"
    by (simp add: js_add_one_exact)
next
  assume "- (2 ^ 53) < count s \<and> count s \<le> 2 ^ 53"
  then show "js_sub (count s) 1 = count s - 1"
    by (simp add: js_sub_one_exact)
qed

theorem reducer_transitions_witness:
  "reducer \<lparr>count = 41, text = ''hi''\<rparr> \<lparr>type = INCREMENT, payload = None\<rparr>
     = Inr \<lparr>count = 42, text = ''hi''\<rparr> \<and>
   reducer \<lparr>count = 41, text = ''hi''\<rparr> \<lparr>type = DECREMENT, payload = None\<rparr>
     = Inr \<lparr>count = 40, text = ''hi''\<rparr> \<and>
   reducer \<lparr>count = 41, text = ''hi''\<rparr> \<lparr>type = NEW_INPUT, payload = Some ''abc''\<rparr>
     = Inr \<lparr>count = 41, text = ''abc''\<rparr>"
  using reducer_transitions [of "\<lparr>count = 41, text = ''hi''\<rparr>" None "''abc''"]
  by simp

text \<open>
  Claim C1 as stated fails at \<open>count = 2^53 = 9007199254740992\<close>: the sum
  \<open>9007199254740993\<close> lies halfway between two binary64 numbers and rounds back, so
  the Increment action returns the state unchanged.
\<close>

theorem increment_at_2_53_counterexample:
  "reducer \<lparr>count = 2 ^ 53, text = ''''\<rparr> \<lparr>type = INCREMENT, payload = None\<rparr>
     = Inr \<lparr>count = 2 ^ 53, text = ''''\<rparr> \<and>
   reducer \<lparr>count = 2 ^ 53, text = ''''\<rparr> \<lparr>type = INCREMENT, payload = None\<rparr>
     \<noteq> Inr \<lparr>count = 2 ^ 53 + 1, text = ''''\<rparr>"
  by (simp add: reducer_INCREMENT js_add_def round_binary64_def ulp_first_binade)

text \<open>
  Claim C2. For every state, an action whose \<open>type\<close> is none of \<open>INCREMENT\<close>,
  \<open>DECREMENT\<close>, \<open>NEW_INPUT\<close> makes the reducer throw: the result is the exception
  and no state, and a sequence of dispatches that starts with such an action ends in
  the exception whatever follows.
\<close>

theorem reducer_unknown_type_throws:
  assumes "type a \<noteq> INCREMENT" and "type a \<noteq> DECREMENT" and "type a \<noteq> NEW_INPUT"
  shows "reducer s a = Inl Error \<and> useReducer reducer s (a # dispatched) = Inl Error"
proof -
  from assms have thrown: "reducer s a = Inl Error"
    by (simp add: reducer_def)
  then show ?thesis by simp
qed

theorem reducer_unknown_type_throws_witness:
  "type \<lparr>type = 7, payload = None\<rparr> \<noteq> INCREMENT \<and>
   type \<lparr>type = 7, payload = None\<rparr> \<noteq> DECREMENT \<and>
   type \<lparr>type = 7, payload = None\<rparr> \<noteq> NEW_INPUT \<and>
   reducer initState \<lparr>type = 7, payload = None\<rparr> = Inl Error \<and>
   useReducer reducer initState
     [\<lparr>type = 7, payload = None\<rparr>, \<lparr>type = INCREMENT, payload = None\<rparr>] = Inl Error"
proof -
  have kinds: "type \<lparr>type = 7, payload = None\<rparr> \<noteq> INCREMENT"
    "type \<lparr>type = 7, payload = None\<rparr> \<noteq> DECREMENT"
    "type \<lparr>type = 7, payload = None\<rparr> \<noteq> NEW_INPUT"
    by (simp_all add: action_kinds)
  from kinds reducer_unknown_type_throws [OF kinds, of initState "[\<lparr>type = INCREMENT, payload = None\<rparr>]"]
  show ?thesis by simp
qed

text \<open>
  Claim C3, as the code has it. \<open>CounterProvider\<close> takes \<open>count\<close> and \<open>text\<close> as
  they are passed and fills in nothing: the initial state it hands to the hook, and so
  the state held at the first render, has \<open>count\<close> and \<open>text\<close> exactly as the props
  have them, present where the prop is present and missing where it is missing.
\<close>

theorem CounterProvider_initState_is_props:
  "CounterProvider_initState \<lparr>count_prop = c, text_prop = t\<rparr>
     = \<lparr>rest_count = c, rest_text = t\<rparr> \<and>
   useReducer r (CounterProvider_initState \<lparr>count_prop = c, text_prop = t\<rparr>) []
     = Inr \<lparr>rest_count = c, rest_text = t\<rparr>"
  unfolding CounterProvider_initState_def by simp

text \<open>
  Claim C3 as stated fails when both props are left out: the initial state has neither
  field, where the claim has the module defaults \<open>count = 0\<close> and \<open>text = ""\<close>.
\<close>

theorem CounterProvider_no_defaults_counterexample:
  "CounterProvider_initState \<lparr>count_prop = None, text_prop = None\<rparr>
     = \<lparr>rest_count = None, rest_text = None\<rparr> \<and>
   CounterProvider_initState \<lparr>count_prop = None, text_prop = None\<rparr>
     \<noteq> \<lparr>rest_count = Some (count initState), rest_text = Some (text initState)\<rparr>"
  by (simp add: CounterProvider_initState_def)

text \<open>
  Claim C4, as the code has it. The initial \<open>count\<close> is 0 and the reducer never clamps
  it. For an integer \<open>count\<close> with \<open>-2^53 \<le> count < 2^53\<close> an Increment action
  changes \<open>count\<close> by exactly +1, and with \<open>-2^53 < count \<le> 2^53\<close> a Decrement
  action changes it by exactly -1, nothing else in the state changing.
\<close>

theorem count_steps_exact_up_to_2_53:
  "count initState = 0 \<and>
   (- (2 ^ 53) \<le> count s \<and> count s < 2 ^ 53 \<longrightarrow>
      reducer s \<lparr>type = INCREMENT, payload = None\<rparr> = Inr (s\<lparr>count := count s + 1\<rparr>)) \<and>
   (- (2 ^ 53) < count s \<and> count s \<le> 2 ^ 53 \<longrightarrow>
      reducer s \<lparr>type = DECREMENT, payload = None\<rparr> = Inr (s\<lparr>count := count s - 1\<rparr>))"
proof -
  have "count initState = 0"
    by (simp add: initState_def)
  moreover have "reducer s \<lparr>type = INCREMENT, payload = None\<rparr> = Inr (s\<lparr>count := count s + 1\<rparr>)"
    if "- (2 ^ 53) \<le> count s \<and> count s < 2 ^ 53"
    using that by (simp add: reducer_INCREMENT js_add_one_exact)
  moreover have "reducer s \<lparr>type = DECREMENT, payload = None\<rparr> = Inr (s\<lparr>count := count s - 1\<rparr>)"
    if "- (2 ^ 53) < count s \<and> count s \<le> 2 ^ 53"
    using that by (simp add: reducer_DECREMENT js_sub_one_exact)
  ultimately show ?thesis by blast
qed

theorem count_steps_exact_up_to_2_53_witness:
  "reducer \<lparr>count = 2 ^ 53 - 1, text = ''x''\<rparr> \<lparr>type = INCREMENT, payload = None\<rparr>
     = Inr \<lparr>count = 2 ^ 53, text = ''x''\<rparr> \<and>
   reducer \<lparr>count = - (2 ^ 53) + 1, text = ''x''\<rparr> \<lparr>type = DECREMENT, payload = None\<rparr>
     = Inr \<lparr>count = - (2 ^ 53), text = ''x''\<rparr>"
  using count_steps_exact_up_to_2_53 [of "\<lparr>count = 2 ^ 53 - 1, text = ''x''\<rparr>"]
    count_steps_exact_up_to_2_53 [of "\<lparr>count = - (2 ^ 53) + 1, text = ''x''\<rparr>"]
  by simp

text \<open>
  Claim C4 as stated fails for large and for small counts: at \<open>count = 2^54\<close> an
  Increment action leaves \<open>count\<close> as it is, and at \<open>count = -2^53\<close> so does a
  Decrement action.
\<close>

theorem count_steps_beyond_2_53_counterexample:
  "reducer \<lparr>count = 2 ^ 54, text = ''''\<rparr> \<lparr>type = INCREMENT, payload = None\<rparr>
     = Inr \<lparr>count = 2 ^ 54, text = ''''\<rparr> \<and>
   reducer \<lparr>count = - (2 ^ 53), text = ''''\<rparr> \<lparr>type = DECREMENT, payload = None\<rparr>
     = Inr \<lparr>count = - (2 ^ 53), text = ''''\<rparr>"
proof -
  have "js_add (2 ^ 54) 1 = 2 ^ 54"
    by (simp add: js_add_def round_binary64_def ulp_second_binade)
  moreover have "js_sub (- (2 ^ 53)) 1 = - (2 ^ 53)"
    by (simp add: js_sub_def round_binary64_def ulp_first_binade)
  ultimately show ?thesis
    by (simp add: reducer_INCREMENT reducer_DECREMENT)
qed

text \<open>
  Claim C5, as the code has it. The text accessor returns \<open>text\<close> and the operation
  \<open>handleTextInput\<close>, which takes the change event of the input element: called with
  an event it dispatches one \<open>NEW_INPUT\<close> action whose payload is exactly
  \<open>e.target.value\<close>, and at the next render the state has that value as \<open>text\<close> and
  the \<open>count\<close> it had, which is what the text accessor then reads.
\<close>

theorem handleTextInput_dispatches_event_value:
  assumes "useCounterContext init dispatched = Inr ctx"
  shows "useCounterText_handleTextInput (useCounterText (Some ctx)) (JSChangeEvent ev)
           = Inr [\<lparr>type = NEW_INPUT, payload = Some (target_value ev)\<rparr>] \<and>
         useCounterContext init (dispatched @ [\<lparr>type = NEW_INPUT, payload = Some (target_value ev)\<rparr>])
           = Inr (ctx\<lparr>state := \<lparr>count = count (state ctx), text = target_value ev\<rparr>\<rparr>) \<and>
         useCounterText_text
             (useCounterText (Some (ctx\<lparr>state := \<lparr>count = count (state ctx), text = target_value ev\<rparr>\<rparr>)))
           = target_value ev"
proof (cases "useReducer reducer init dispatched")
  case (Inl e)
  with assms show ?thesis
    by (simp add: useCounterContext_def)
next
  case (Inr st)
  with assms have ctx: "state ctx = st"
    "handleTextInput ctx (JSChangeEvent ev)
       = Inr [\<lparr>type = NEW_INPUT, payload = Some (target_value ev)\<rparr>]"
    by (auto simp add: useCounterContext_def)
  have next_state:
    "useReducer reducer init (dispatched @ [\<lparr>type = NEW_INPUT, payload = Some (target_value ev)\<rparr>])
       = Inr \<lparr>count = count st, text = target_value ev\<rparr>"
    by (simp add: useReducer_append Inr reducer_NEW_INPUT)
  from assms Inr have
    "useCounterContext init (dispatched @ [\<lparr>type = NEW_INPUT, payload = Some (target_value ev)\<rparr>])
       = Inr (ctx\<lparr>state := \<lparr>count = count st, text = target_value ev\<rparr>\<rparr>)"
    by (auto simp add: useCounterContext_def next_state)
  with ctx show ?thesis
    by (simp add: useCounterText_def useContext_def)
qed

theorem handleTextInput_dispatches_event_value_witness:
  "\<not> isl (useCounterContext initState []) \<and>
   useCounterText_handleTextInput
       (useCounterText (Some (projr (useCounterContext initState []))))
       (JSChangeEvent \<lparr>target_value = ''abc''\<rparr>)
     = Inr [\<lparr>type = NEW_INPUT, payload = Some ''abc''\<rparr>] \<and>
   useCounterText_text
       (useCounterText (Some (projr (useCounterContext initState
          [\<lparr>type = NEW_INPUT, payload = Some ''abc''\<rparr>]))))
     = ''abc''"
proof -
  obtain ctx where ctx: "useCounterContext initState [] = Inr ctx"
    by (simp add: useCounterContext_def)
  from handleTextInput_dispatches_event_value [OF ctx, of "\<lparr>target_value = ''abc''\<rparr>"] ctx
  show ?thesis by simp
qed

text \<open>
  Claim C5 as stated fails on a string argument: \<open>handleTextInput("abc")\<close> reads
  \<open>"abc".target.value\<close>, which raises a TypeError before anything is dispatched.
\<close>

theorem handleTextInput_string_argument_counterexample:
  "\<not> isl (useCounterContext initState []) \<and>
   useCounterText_handleTextInput
       (useCounterText (Some (projr (useCounterContext initState []))))
       (JSString ''abc'')
     = Inl TypeError"
  by (simp add: useCounterContext_def useCounterText_def useContext_def)

text \<open>
  Claim C6, as the code has it. For every state \<open>s\<close> with an integer \<open>count\<close> and
  every natural number \<open>n\<close>: if \<open>-2^53 \<le> count\<close> and \<open>count + n \<le> 2^53\<close>,
  dispatching the Increment action \<open>n\<close> times yields \<open>count + n\<close> with \<open>text\<close>
  unchanged; if \<open>count \<le> 2^53\<close> and \<open>-2^53 \<le> count - n\<close>, dispatching the
  Decrement action \<open>n\<close> times yields \<open>count - n\<close> with \<open>text\<close> unchanged.
\<close>

theorem repeated_steps_exact_up_to_2_53:
  "(- (2 ^ 53) \<le> count s \<and> count s + int n \<le> 2 ^ 53 \<longrightarrow>
      useReducer reducer s (replicate n \<lparr>type = INCREMENT, payload = None\<rparr>)
        = Inr \<lparr>count = count s + int n, text = text s\<rparr>) \<and>
   (count s \<le> 2 ^ 53 \<and> - (2 ^ 53) \<le> count s - int n \<longrightarrow>
      useReducer reducer s (replicate n \<lparr>type = DECREMENT, payload = None\<rparr>)
        = Inr \<lparr>count = count s - int n, text = text s\<rparr>)"
proof (intro conjI impI)
  assume "- (2 ^ 53) \<le> count s \<and> count s + int n \<le> 2 ^ 53"
  then have "useReducer reducer s (replicate n \<lparr>type = INCREMENT, payload = None\<rparr>)
               = Inr (s\<lparr>count := count s + int n\<rparr>)"
    by (simp add: increments_exact)
  then show "useReducer reducer s (replicate n \<lparr>type = INCREMENT, payload = None\<rparr>)
               = Inr \<lparr>count = count s + int n, text = text s\<rparr>"
    by simp
next
  assume "count s \<le> 2 ^ 53 \<and> - (2 ^ 53) \<le> count s - int n"
  then have "useReducer reducer s (replicate n \<lparr>type = DECREMENT, payload = None\<rparr>)
               = Inr (s\<lparr>count := count s - int n\<rparr>)"
    by (simp add: decrements_exact)
  then show "useReducer reducer s (replicate n \<lparr>type = DECREMENT, payload = None\<rparr>)
               = Inr \<lparr>count = count s - int n, text = text s\<rparr>"
    by simp
qed

theorem repeated_steps_exact_up_to_2_53_witness:
  "useReducer reducer \<lparr>count = 0, text = ''ab''\<rparr>
       (replicate 3 \<lparr>type = INCREMENT, payload = None\<rparr>)
     = Inr \<lparr>count = 3, text = ''ab''\<rparr> \<and>
   useReducer reducer \<lparr>count = 0, text = ''ab''\<rparr>
       (replicate 3 \<lparr>type = DECREMENT, payload = None\<rparr>)
     = Inr \<lparr>count = - 3, text = ''ab''\<rparr>"
  using repeated_steps_exact_up_to_2_53 [of "\<lparr>count = 0, text = ''ab''\<rparr>" 3]
  by simp

text \<open>
  Claim C6 as stated fails for \<open>n = 2\<close> at \<open>count = 2^53 - 1\<close>: the first Increment
  reaches \<open>2^53\<close> and the second leaves it there, so the result is \<open>2^53\<close> and not
  \<open>2^53 + 1\<close>.
\<close>

theorem two_increments_below_2_53_counterexample:
  "useReducer reducer \<lparr>count = 2 ^ 53 - 1, text = ''''\<rparr>
       (replicate 2 \<lparr>type = INCREMENT, payload = None\<rparr>)
     = Inr \<lparr>count = 2 ^ 53, text = ''''\<rparr> \<and>
   useReducer reducer \<lparr>count = 2 ^ 53 - 1, text = ''''\<rparr>
       (replicate 2 \<lparr>type = INCREMENT, payload = None\<rparr>)
     \<noteq> Inr \<lparr>count = 2 ^ 53 - 1 + 2, text = ''''\<rparr>"
proof -
  have first: "js_add (2 ^ 53 - 1) 1 = 2 ^ 53"
    by (simp add: js_add_one_exact)
  have second: "js_add (2 ^ 53) 1 = 2 ^ 53"
    by (simp add: js_add_def round_binary64_def ulp_first_binade)
  have "useReducer reducer \<lparr>count = 2 ^ 53 - 1, text = ''''\<rparr>
            (replicate 2 \<lparr>type = INCREMENT, payload = None\<rparr>)
          = Inr \<lparr>count = 2 ^ 53, text = ''''\<rparr>"
    using first second by (simp add: numeral_2_eq_2 reducer_INCREMENT)
  then show ?thesis by simp
qed

text \<open>
  Claim C7. For every state \<open>s\<close> and every string \<open>v\<close>, the empty one included,
  dispatching \<open>SetText(v)\<close> twice in a row from \<open>s\<close> ends in the same state as
  dispatching it once.
\<close>

theorem NEW_INPUT_idempotent:
  "useReducer reducer s
       [\<lparr>type = NEW_INPUT, payload = Some v\<rparr>, \<lparr>type = NEW_INPUT, payload = Some v\<rparr>]
     = useReducer reducer s [\<lparr>type = NEW_INPUT, payload = Some v\<rparr>]"
proof -
  let ?a = "\<lparr>type = NEW_INPUT, payload = Some v\<rparr>"
  have once: "reducer s ?a = Inr (s\<lparr>text := v\<rparr>)"
    by (simp add: reducer_NEW_INPUT)
  have again: "reducer (s\<lparr>text := v\<rparr>) ?a = Inr (s\<lparr>text := v\<rparr>)"
    by (simp add: reducer_NEW_INPUT)
  show ?thesis
    by (simp add: once again)
qed

text \<open>
  Claim C8. For every state, a SetText action with no payload is not rejected: the
  reducer returns the state with \<open>text\<close> set to the empty string and \<open>count\<close> as it
  was.
\<close>

theorem NEW_INPUT_without_payload:
  "reducer s \<lparr>type = NEW_INPUT, payload = None\<rparr> = Inr \<lparr>count = count s, text = ''''\<rparr>"
  by (simp add: reducer_NEW_INPUT)

text \<open>
  Claim C9. The default value of the context has the module defaults as its state,
  \<open>count = 0\<close> and \<open>text = ""\<close>, and callbacks that dispatch nothing, whatever their
  argument, so that calling them changes no state. A consumer with no provider above it
  gets this value from both accessors, and no exception.
\<close>

theorem initContextState_defaults_and_noops:
  "state initContextState = initState \<and>
   initState = \<lparr>count = 0, text = ''''\<rparr> \<and>
   increment initContextState = [] \<and>
   decrement initContextState = [] \<and>
   handleTextInput initContextState e = Inr [] \<and>
   useReducer reducer s (increment initContextState) = Inr s \<and>
   useReducer reducer s (decrement initContextState) = Inr s \<and>
   useContext CounterContext None = initContextState \<and>
   useCounter None
     = \<lparr>useCounter_count = 0, useCounter_increment = [], useCounter_decrement = []\<rparr> \<and>
   useCounterText_text (useCounterText None) = '''' \<and>
   useCounterText_handleTextInput (useCounterText None) e = Inr []"
proof -
  have fallback: "useContext CounterContext None = initContextState"
    by (simp add: useContext_def CounterContext_def)
  have fields: "state initContextState = initState" "increment initContextState = []"
    "decrement initContextState = []" "handleTextInput initContextState e = Inr []"
    by (simp_all add: initContextState_def)
  have "useCounter None
          = \<lparr>useCounter_count = 0, useCounter_increment = [], useCounter_decrement = []\<rparr>"
    by (simp add: useCounter_def fallback fields initState_def)
  moreover have "useCounterText_text (useCounterText None) = ''''"
    and "useCounterText_handleTextInput (useCounterText None) e = Inr []"
    by (simp_all add: useCounterText_def fallback fields initState_def)
  ultimately show ?thesis
    using fallback fields by (simp add: initState_def)
qed

text \<open>
  Claim C10, as the code has it. For every state \<open>s\<close> with an integer \<open>count\<close>: if
  \<open>-2^53 \<le> count < 2^53\<close>, an Increment action followed by a Decrement action gives
  back \<open>s\<close>, and if \<open>-2^53 < count \<le> 2^53\<close>, so does a Decrement action followed by
  an Increment action; \<open>text\<close> included.
\<close>

theorem increment_decrement_inverse_up_to_2_53:
  "(- (2 ^ 53) \<le> count s \<and> count s < 2 ^ 53 \<longrightarrow>
      useReducer reducer s
          [\<lparr>type = INCREMENT, payload = None\<rparr>, \<lparr>type = DECREMENT, payload = None\<rparr>]
        = Inr s) \<and>
   (- (2 ^ 53) < count s \<and> count s \<le> 2 ^ 53 \<longrightarrow>
      useReducer reducer s
          [\<lparr>type = DECREMENT, payload = None\<rparr>, \<lparr>type = INCREMENT, payload = None\<rparr>]
        = Inr s)"
proof (intro conjI impI)
  assume range: "- (2 ^ 53) \<le> count s \<and> count s < 2 ^ 53"
  then have up: "js_add (count s) 1 = count s + 1"
    by (simp add: js_add_one_exact)
  from range have down: "js_sub (count s + 1) 1 = count s"
    by (simp add: js_sub_one_exact)
  show "useReducer reducer s
          [\<lparr>type = INCREMENT, payload = None\<rparr>, \<lparr>type = DECREMENT, payload = None\<rparr>]
        = Inr s"
    by (simp add: reducer_INCREMENT reducer_DECREMENT up down)
next
  assume range: "- (2 ^ 53) < count s \<and> count s \<le> 2 ^ 53"
  then have down: "js_sub (count s) 1 = count s - 1"
    by (simp add: js_sub_one_exact)
  from range have up: "js_add (count s - 1) 1 = count s"
    by (simp add: js_add_one_exact)
  show "useReducer reducer s
          [\<lparr>type = DECREMENT, payload = None\<rparr>, \<lparr>type = INCREMENT, payload = None\<rparr>]
        = Inr s"
    by (simp add: reducer_INCREMENT reducer_DECREMENT up down)
qed

theorem increment_decrement_inverse_up_to_2_53_witness:
  "useReducer reducer \<lparr>count = 5, text = ''ab''\<rparr>
       [\<lparr>type = INCREMENT, payload = None\<rparr>, \<lparr>type = DECREMENT, payload = None\<rparr>]
     = Inr \<lparr>count = 5, text = ''ab''\<rparr> \<and>
   useReducer reducer \<lparr>count = 5, text = ''ab''\<rparr>
       [\<lparr>type = DECREMENT, payload = None\<rparr>, \<lparr>type = INCREMENT, payload = None\<rparr>]
     = Inr \<lparr>count = 5, text = ''ab''\<rparr>"
  using increment_decrement_inverse_up_to_2_53 [of "\<lparr>count = 5, text = ''ab''\<rparr>"]
  by simp

text \<open>
  Claim C10 as stated fails at \<open>count = 2^53\<close>: the Increment action leaves \<open>count\<close>
  at \<open>2^53\<close>, the Decrement action then gives \<open>2^53 - 1\<close>, which is not the state
  the two started from.
\<close>

theorem increment_decrement_at_2_53_counterexample:
  "useReducer reducer \<lparr>count = 2 ^ 53, text = ''''\<rparr>
       [\<lparr>type = INCREMENT, payload = None\<rparr>, \<lparr>type = DECREMENT, payload = None\<rparr>]
     = Inr \<lparr>count = 2 ^ 53 - 1, text = ''''\<rparr> \<and>
   useReducer reducer \<lparr>count = 2 ^ 53, text = ''''\<rparr>
       [\<lparr>type = INCREMENT, payload = None\<rparr>, \<lparr>type = DECREMENT, payload = None\<rparr>]
     \<noteq> Inr \<lparr>count = 2 ^ 53, text = ''''\<rparr>"
proof -
  have up: "js_add (2 ^ 53) 1 = 2 ^ 53"
    by (simp add: js_add_def round_binary64_def ulp_first_binade)
  have down: "js_sub (2 ^ 53) 1 = 2 ^ 53 - 1"
    by (simp add: js_sub_one_exact)
  have "useReducer reducer \<lparr>count = 2 ^ 53, text = ''''\<rparr>
            [\<lparr>type = INCREMENT, payload = None\<rparr>, \<lparr>type = DECREMENT, payload = None\<rparr>]
          = Inr \<lparr>count = 2 ^ 53 - 1, text = ''''\<rparr>"
    using up down by (simp add: reducer_INCREMENT reducer_DECREMENT)
  then show ?thesis by simp
qed

end
